theory Spec2Isabelle
  imports Main "HOL-Library.Sublist"
begin

section \<open>String primitives of the host language\<close>

text \<open>
  Source strings are modelled as \<open>string\<close> (lists of \<open>char\<close>): one \<open>char\<close> stands for one
  code unit, restricted to the range below 256. The functions of this section are the
  built-in string methods the build scripts call, written out as the language standard
  defines them on that range.
\<close>

text \<open>White space as \<^verbatim>\<open>String.prototype.trim\<close> and the regex class \<^verbatim>\<open>\s\<close> see it:
  TAB, LF, VT, FF, CR, SPACE and NBSP.\<close>

definition is_ws :: "char \<Rightarrow> bool" where
  "is_ws c = (c \<in> set [CHR 0x09, CHR 0x0A, CHR 0x0B, CHR 0x0C, CHR 0x0D, CHR '' '', CHR 0xA0])"

text \<open>The regex class \<^verbatim>\<open>\w\<close>: ASCII letters, digits and the underscore.\<close>

definition is_word :: "char \<Rightarrow> bool" where
  "is_word c = (c \<in> set ''abcdefghijklmnopqrstuvwxyzABCDEFGHIJKLMNOPQRSTUVWXYZ0123456789_'')"

definition is_quote :: "char \<Rightarrow> bool" where
  "is_quote c = (c = CHR 0x22 \<or> c = CHR 0x27)"

text \<open>\<^verbatim>\<open>s.trim()\<close>\<close>

definition trim :: "string \<Rightarrow> string" where
  "trim s = rev (dropWhile is_ws (rev (dropWhile is_ws s)))"

text \<open>\<^verbatim>\<open>s.indexOf(sub)\<close>, with \<open>None\<close> for -1.\<close>

fun index_of :: "string \<Rightarrow> string \<Rightarrow> nat option" where
  "index_of sub [] = (if sub = [] then Some 0 else None)"
| "index_of sub (c # cs) =
     (if prefix sub (c # cs) then Some 0 else map_option Suc (index_of sub cs))"


text \<open>\<^verbatim>\<open>s.includes(sub)\<close>\<close>

definition str_includes :: "string \<Rightarrow> string \<Rightarrow> bool" where
  "str_includes s sub = (index_of sub s \<noteq> None)"

text \<open>\<^verbatim>\<open>s.endsWith(suf)\<close> and \<^verbatim>\<open>s.startsWith(pre)\<close>\<close>

definition endsWith :: "string \<Rightarrow> string \<Rightarrow> bool" where
  "endsWith s suf = suffix suf s"

definition startsWith :: "string \<Rightarrow> string \<Rightarrow> bool" where
  "startsWith s pre = prefix pre s"

lemma index_of_bound:
  "index_of sub s = Some i \<Longrightarrow> i + length sub \<le> length s"
proof (induction s arbitrary: i)
  case Nil
  then show ?case by (simp split: if_splits)
next
  case (Cons c cs)
  show ?case
  proof (cases "prefix sub (c # cs)")
    case True
    with Cons.prems have "i = 0" by simp
    with prefix_length_le [OF True] show ?thesis by simp
  next
    case False
    with Cons.prems obtain j where "index_of sub cs = Some j" "i = Suc j" by auto
    with Cons.IH show ?thesis by fastforce
  qed
qed

text \<open>\<^verbatim>\<open>s.split(sep)\<close>: the pieces between successive occurrences of \<open>sep\<close>, found left to
  right without overlap; an empty separator splits into single code units.\<close>

function split_str :: "string \<Rightarrow> string \<Rightarrow> string list" where
  "split_str sep s =
     (if sep = [] then map (\<lambda>c. [c]) s
      else case index_of sep s of
             None \<Rightarrow> [s]
           | Some i \<Rightarrow> take i s # split_str sep (drop (i + length sep) s))"
  by pat_completeness auto
termination
proof (relation "measure (\<lambda>(sep, s). length s)")
  show "wf (measure (\<lambda>(sep, s). length s))" by simp
next
  fix sep s :: string and i
  assume "sep \<noteq> []" and found: "index_of sep s = Some i"
  then obtain a r where sep: "sep = a # r" by (cases sep) auto
  from index_of_bound [OF found] sep
  show "((sep, drop (i + length sep) s), (sep, s)) \<in> measure (\<lambda>(sep, s). length s)"
    by simp
qed

declare split_str.simps [simp del]

text \<open>Array indexing \<^verbatim>\<open>parts[i]\<close>: \<open>None\<close> stands for \<^verbatim>\<open>undefined\<close>.\<close>

definition at_index :: "'a list \<Rightarrow> nat \<Rightarrow> 'a option" where
  "at_index xs i = (if i < length xs then Some (xs ! i) else None)"

text \<open>
  \<^verbatim>\<open>s.replace(pattern, replacement)\<close> with a string pattern: the first occurrence of the
  pattern is replaced by the expansion of the replacement, in which \<^verbatim>\<open>$$\<close> stands for a
  dollar sign, \<^verbatim>\<open>$&\<close> for the matched text, \<^verbatim>\<open>$`\<close> for the text before the match and
  \<^verbatim>\<open>$'\<close> for the text after it. A string pattern has no capture groups, so every other
  use of the dollar sign is copied as it is.
\<close>

fun get_substitution :: "string \<Rightarrow> string \<Rightarrow> string \<Rightarrow> string \<Rightarrow> string" where
  "get_substitution matched pre post [] = []"
| "get_substitution matched pre post [c] = [c]"
| "get_substitution matched pre post (c # d # r) =
     (if c = CHR ''$'' \<and> d = CHR ''$'' then CHR ''$'' # get_substitution matched pre post r
      else if c = CHR ''$'' \<and> d = CHR ''&'' then matched @ get_substitution matched pre post r
      else if c = CHR ''$'' \<and> d = CHR 0x60 then pre @ get_substitution matched pre post r
      else if c = CHR ''$'' \<and> d = CHR 0x27 then post @ get_substitution matched pre post r
      else c # get_substitution matched pre post (d # r))"

definition replace_str :: "string \<Rightarrow> string \<Rightarrow> string \<Rightarrow> string" where
  "replace_str pat repl s =
     (case index_of pat s of
        None \<Rightarrow> s
      | Some i \<Rightarrow>
          (let pre = take i s; post = drop (i + length pat) s
           in pre @ get_substitution pat pre post repl @ post))"

text \<open>\<^verbatim>\<open>s.replace(/\s+/g, ' ')\<close>: every maximal run of white space becomes one space.\<close>

function collapse_ws :: "string \<Rightarrow> string" where
  "collapse_ws [] = []"
| "collapse_ws (c # cs) =
     (if is_ws c then CHR '' '' # collapse_ws (dropWhile is_ws cs) else c # collapse_ws cs)"
  by pat_completeness auto
termination
  by (relation "measure length") (auto simp: less_Suc_eq_le length_dropWhile_le)


text \<open>Removal of a literal prefix, as the regex engine consumes a literal.\<close>

definition strip_prefix :: "string \<Rightarrow> string \<Rightarrow> string option" where
  "strip_prefix p s = (if prefix p s then Some (drop (length p) s) else None)"

text \<open>\<^verbatim>\<open>parts.join(sep)\<close>\<close>

fun join_str :: "string \<Rightarrow> string list \<Rightarrow> string" where
  "join_str sep [] = []"
| "join_str sep [x] = x"
| "join_str sep (x # y # ys) = x @ sep @ join_str sep (y # ys)"


section \<open>Numbers: \<^verbatim>\<open>parseInt\<close> and number-to-string conversion\<close>

text \<open>
  A number read by \<^verbatim>\<open>parseInt\<close> is either \<^verbatim>\<open>NaN\<close> or an integer. The model keeps the
  integer exactly; it agrees with the host language for magnitudes below \<open>2^53\<close>.
\<close>

datatype jsnum = NaN | Num int

definition truthy_num :: "jsnum \<Rightarrow> bool" where
  "truthy_num x = (case x of NaN \<Rightarrow> False | Num n \<Rightarrow> n \<noteq> 0)"

definition digit_val :: "char \<Rightarrow> nat" where
  "digit_val c =
     (let k = of_char c :: nat
      in if 48 \<le> k \<and> k \<le> 57 then k - 48
         else if 97 \<le> k \<and> k \<le> 122 then k - 87
         else if 65 \<le> k \<and> k \<le> 90 then k - 55
         else 99)"

definition is_digit :: "nat \<Rightarrow> char \<Rightarrow> bool" where
  "is_digit radix c = (digit_val c < radix)"

definition digits_val :: "nat \<Rightarrow> string \<Rightarrow> nat" where
  "digits_val radix ds = foldl (\<lambda>acc c. acc * radix + digit_val c) 0 ds"

text \<open>\<^verbatim>\<open>parseInt(s)\<close> without a radix: leading white space, an optional sign, an optional
  \<^verbatim>\<open>0x\<close> or \<^verbatim>\<open>0X\<close> selecting base 16, then the longest run of digits; \<^verbatim>\<open>NaN\<close> when that
  run is empty.\<close>

definition parseInt :: "string \<Rightarrow> jsnum" where
  "parseInt s =
     (let s1 = dropWhile is_ws s;
          neg = (case s1 of [] \<Rightarrow> False | c # _ \<Rightarrow> c = CHR ''-'');
          s2 = (case s1 of [] \<Rightarrow> [] | c # r \<Rightarrow> if c = CHR ''-'' \<or> c = CHR ''+'' then r else s1);
          hex = (prefix ''0x'' s2 \<or> prefix ''0X'' s2);
          radix = (if hex then 16 else 10);
          s3 = (if hex then drop 2 s2 else s2);
          ds = takeWhile (is_digit radix) s3
      in if ds = [] then NaN
         else Num ((if neg then - 1 else 1) * int (digits_val radix ds)))"

function show_nat :: "nat \<Rightarrow> string" where
  "show_nat n =
     (if n < 10 then [char_of (48 + n)] else show_nat (n div 10) @ [char_of (48 + n mod 10)])"
  by pat_completeness auto
termination
  by (relation "measure id") auto

declare show_nat.simps [simp del]

text \<open>The text a template literal inserts for a number.\<close>

definition num_to_string :: "jsnum \<Rightarrow> string" where
  "num_to_string x =
     (case x of
        NaN \<Rightarrow> ''NaN''
      | Num n \<Rightarrow> if n < 0 then CHR ''-'' # show_nat (nat (- n)) else show_nat (nat n))"


section \<open>Metadata header: \<^verbatim>\<open>parseMetadata\<close>\<close>

text \<open>
  The header regex is \<^verbatim>\<open>/<(\w+)>([\s\S]*?)<\/\1>/g\<close>. A match at the start of \<open>s\<close>: the
  character \<^verbatim>\<open><\<close>, the whole run of word characters that follows (the next character has
  to be \<^verbatim>\<open>>\<close>, which no shorter run allows), and the text up to the first closing tag of
  the same name. The result is the name, the inner text and the length of the match.
\<close>

definition match_meta_at :: "string \<Rightarrow> (string \<times> string \<times> nat) option" where
  "match_meta_at s =
     (case s of
        [] \<Rightarrow> None
      | c # r \<Rightarrow>
          if c \<noteq> CHR ''<'' then None
          else let name = takeWhile is_word r
               in if name = [] then None
                  else (case dropWhile is_word r of
                          [] \<Rightarrow> None
                        | d # r' \<Rightarrow>
                            if d \<noteq> CHR ''>'' then None
                            else (case index_of (''</'' @ name @ ''>'') r' of
                                    None \<Rightarrow> None
                                  | Some i \<Rightarrow>
                                      Some (name, take i r', 2 * length name + i + 5))))"

lemma match_meta_at_length:
  assumes "match_meta_at s = Some (k, v, n)"
  shows "0 < n" and "n \<le> length s"
proof -
  from assms obtain r r' i where s: "s = CHR ''<'' # r"
    and k: "k = takeWhile is_word r"
    and r': "dropWhile is_word r = CHR ''>'' # r'"
    and i: "index_of (''</'' @ k @ ''>'') r' = Some i"
    and n: "n = 2 * length k + i + 5"
    by (auto simp: match_meta_at_def Let_def split: list.splits if_splits option.splits)
  from n show "0 < n" by simp
  have "length r = length k + Suc (length r')"
    using arg_cong [OF takeWhile_dropWhile_id [of is_word r], of length] k r' by simp
  moreover from index_of_bound [OF i] have "i + (length k + 3) \<le> length r'" by simp
  ultimately show "n \<le> length s" using s n by simp
qed

text \<open>The loop \<^verbatim>\<open>while ((match = regex.exec(rawHeader)) !== null)\<close>: the matches from left to
  right, each search starting where the previous match ended.\<close>

function meta_matches :: "string \<Rightarrow> (string \<times> string) list" where
  "meta_matches [] = []"
| "meta_matches (c # cs) =
     (case match_meta_at (c # cs) of
        None \<Rightarrow> meta_matches cs
      | Some (k, v, n) \<Rightarrow> (k, v) # meta_matches (drop n (c # cs)))"
  by pat_completeness auto
termination
proof (relation "measure length")
  fix c cs x k y v n
  assume "match_meta_at (c # cs) = Some x" "(k, y) = x" "(v, n) = y"
  then have "match_meta_at (c # cs) = Some (k, v, n)" by simp
  from match_meta_at_length(1) [OF this]
  show "(drop n (c # cs), c # cs) \<in> measure length" by simp
qed simp_all

declare meta_matches.simps(2) [simp del]

text \<open>
  The metadata object is a plain object; its own properties are modelled as a map.
  Assigning a string to the key \<^verbatim>\<open>__proto__\<close> of a plain object creates no property.
\<close>

type_synonym obj = "string \<rightharpoonup> string"

definition obj_set :: "obj \<Rightarrow> string \<Rightarrow> string \<Rightarrow> obj" where
  "obj_set m k v = (if k = ''__proto__'' then m else m(k \<mapsto> v))"

definition parseMetadata :: "string \<Rightarrow> obj" where
  "parseMetadata rawHeader =
     foldl (\<lambda>metadata (k, v). obj_set metadata k (trim v)) Map.empty (meta_matches rawHeader)"


section \<open>Image derivation: \<^verbatim>\<open>processImages\<close>\<close>

subsection \<open>The element regex\<close>

text \<open>
  \<^verbatim>\<open>/<img\s+([^>]*?)src=["']([^"']+)["']([^>]*?)data-opt(?:=["']([^"']*)["'])?([^>]*?)>/g\<close>

  The matcher below follows the backtracking order of the regex engine: lazy groups try
  the shortest text first, the optional marker value is tried before its absence. Each
  function takes the text still to be matched and returns the captured groups with the
  text left after the match.
\<close>

record img_match =
  originalTag :: string
  beforeSrc :: string
  srcPath :: string
  between :: string
  optValue :: "string option"
  after :: string

text \<open>\<^verbatim>\<open>([^>]*?)>\<close>: the text up to the next \<^verbatim>\<open>>\<close>.\<close>

definition match_tail :: "string \<Rightarrow> (string \<times> string) option" where
  "match_tail r =
     (case dropWhile (\<lambda>c. c \<noteq> CHR ''>'') r of
        [] \<Rightarrow> None
      | _ # rest \<Rightarrow> Some (takeWhile (\<lambda>c. c \<noteq> CHR ''>'') r, rest))"

text \<open>\<^verbatim>\<open>["']([^"']*)["']\<close>: a quote, the whole run of non-quote characters, a quote (the
  two quotes need not be the same character).\<close>

definition match_quoted :: "string \<Rightarrow> (string \<times> string) option" where
  "match_quoted r =
     (case r of
        [] \<Rightarrow> None
      | q # r1 \<Rightarrow>
          if \<not> is_quote q then None
          else (case dropWhile (\<lambda>c. \<not> is_quote c) r1 of
                  [] \<Rightarrow> None
                | _ # r2 \<Rightarrow> Some (takeWhile (\<lambda>c. \<not> is_quote c) r1, r2)))"

text \<open>\<^verbatim>\<open>=["']([^"']*)["']([^>]*?)>\<close>: the marker's value followed by the tail.\<close>

definition match_opt_value :: "string \<Rightarrow> (string option \<times> string \<times> string) option" where
  "match_opt_value r1 =
     (case r1 of
        [] \<Rightarrow> None
      | e # r2 \<Rightarrow>
          if e \<noteq> CHR ''='' then None
          else (case match_quoted r2 of
                  None \<Rightarrow> None
                | Some (v, r3) \<Rightarrow>
                    (case match_tail r3 of
                       None \<Rightarrow> None
                     | Some (a, rest) \<Rightarrow> Some (Some v, a, rest))))"

text \<open>\<^verbatim>\<open>data-opt(?:=["']([^"']*)["'])?([^>]*?)>\<close>: with the value if that leads to a match,
  without it otherwise.\<close>

definition match_opt :: "string \<Rightarrow> (string option \<times> string \<times> string) option" where
  "match_opt r =
     (case strip_prefix ''data-opt'' r of
        None \<Rightarrow> None
      | Some r1 \<Rightarrow>
          (case match_opt_value r1 of
             Some res \<Rightarrow> Some res
           | None \<Rightarrow>
               (case match_tail r1 of
                  None \<Rightarrow> None
                | Some (a, rest) \<Rightarrow> Some (None, a, rest))))"

text \<open>\<^verbatim>\<open>([^>]*?)\<close> before the marker: the shortest text, free of \<^verbatim>\<open>>\<close>, after which the
  marker and the tail match. The first argument collects the text passed over, reversed.\<close>

fun search_opt :: "string \<Rightarrow> string \<Rightarrow> (string \<times> string option \<times> string \<times> string) option" where
  "search_opt acc [] = None"
| "search_opt acc (c # cs) =
     (case match_opt (c # cs) of
        Some (v, a, rest) \<Rightarrow> Some (rev acc, v, a, rest)
      | None \<Rightarrow> if c = CHR ''>'' then None else search_opt (c # acc) cs)"

text \<open>\<^verbatim>\<open>src=["']([^"']+)["']\<close> and everything after it.\<close>

definition match_src ::
  "string \<Rightarrow> (string \<times> string \<times> string option \<times> string \<times> string) option" where
  "match_src r =
     (case strip_prefix ''src='' r of
        None \<Rightarrow> None
      | Some r1 \<Rightarrow>
          (case match_quoted r1 of
             None \<Rightarrow> None
           | Some (p, r3) \<Rightarrow>
               if p = [] then None
               else (case search_opt [] r3 of
                       None \<Rightarrow> None
                     | Some (btw, v, a, rest) \<Rightarrow> Some (p, btw, v, a, rest))))"

text \<open>\<^verbatim>\<open>([^>]*?)\<close> before \<^verbatim>\<open>src=\<close>: the shortest text, free of \<^verbatim>\<open>>\<close>, after which the
  rest of the regex matches.\<close>

fun search_src ::
  "string \<Rightarrow> string \<Rightarrow> (string \<times> string \<times> string \<times> string option \<times> string \<times> string) option" where
  "search_src acc [] = None"
| "search_src acc (c # cs) =
     (case match_src (c # cs) of
        Some (p, btw, v, a, rest) \<Rightarrow> Some (rev acc, p, btw, v, a, rest)
      | None \<Rightarrow> if c = CHR ''>'' then None else search_src (c # acc) cs)"

text \<open>A match of the whole regex at the start of \<open>s\<close>. After \<^verbatim>\<open><img\<close> the whole run of
  white space is taken: white space left over would only become part of the first group.\<close>

definition match_img_at :: "string \<Rightarrow> (img_match \<times> string) option" where
  "match_img_at s =
     (case strip_prefix ''<img'' s of
        None \<Rightarrow> None
      | Some r \<Rightarrow>
          if takeWhile is_ws r = [] then None
          else (case search_src [] (dropWhile is_ws r) of
                  None \<Rightarrow> None
                | Some (b, p, btw, v, a, rest) \<Rightarrow>
                    Some (\<lparr>originalTag = take (length s - length rest) s, beforeSrc = b,
                           srcPath = p, between = btw, optValue = v, after = a\<rparr>, rest)))"

lemma match_tail_shorter: "match_tail r = Some (a, rest) \<Longrightarrow> length rest < length r"
proof -
  assume "match_tail r = Some (a, rest)"
  then obtain x where "dropWhile (\<lambda>c. c \<noteq> CHR ''>'') r = x # rest"
    by (auto simp: match_tail_def split: list.splits)
  with length_dropWhile_le [of "\<lambda>c. c \<noteq> CHR ''>''" r] show ?thesis by simp
qed

lemma match_quoted_shorter: "match_quoted r = Some (v, rest) \<Longrightarrow> length rest < length r"
proof -
  assume "match_quoted r = Some (v, rest)"
  then obtain q r1 x where "r = q # r1" "dropWhile (\<lambda>c. \<not> is_quote c) r1 = x # rest"
    by (auto simp: match_quoted_def split: list.splits if_splits)
  with length_dropWhile_le [of "\<lambda>c. \<not> is_quote c" r1] show ?thesis by simp
qed

lemma strip_prefix_length: "strip_prefix p s = Some r \<Longrightarrow> length r \<le> length s"
  by (auto simp: strip_prefix_def split: if_splits)

lemma match_opt_shorter: "match_opt r = Some (v, a, rest) \<Longrightarrow> length rest < length r"
  by (auto simp: match_opt_def match_opt_value_def
      split: option.splits list.splits if_splits
      dest!: match_tail_shorter match_quoted_shorter strip_prefix_length)

lemma search_opt_shorter:
  "search_opt acc r = Some (btw, v, a, rest) \<Longrightarrow> length rest < length r"
proof (induction r arbitrary: acc)
  case Nil
  then show ?case by simp
next
  case (Cons c cs)
  show ?case
  proof (cases "match_opt (c # cs)")
    case None
    with Cons.prems have "search_opt (c # acc) cs = Some (btw, v, a, rest)"
      by (simp split: if_splits)
    from Cons.IH [OF this] show ?thesis by simp
  next
    case (Some res)
    with Cons.prems have "match_opt (c # cs) = Some (v, a, rest)"
      by (cases res) auto
    from match_opt_shorter [OF this] show ?thesis .
  qed
qed

lemma match_src_shorter:
  "match_src r = Some (p, btw, v, a, rest) \<Longrightarrow> length rest < length r"
  by (auto simp: match_src_def split: option.splits if_splits
      dest!: search_opt_shorter match_quoted_shorter strip_prefix_length)

lemma search_src_shorter:
  "search_src acc r = Some (b, p, btw, v, a, rest) \<Longrightarrow> length rest < length r"
proof (induction r arbitrary: acc)
  case Nil
  then show ?case by simp
next
  case (Cons c cs)
  show ?case
  proof (cases "match_src (c # cs)")
    case None
    with Cons.prems have "search_src (c # acc) cs = Some (b, p, btw, v, a, rest)"
      by (simp split: if_splits)
    from Cons.IH [OF this] show ?thesis by simp
  next
    case (Some res)
    with Cons.prems have "match_src (c # cs) = Some (p, btw, v, a, rest)"
      by (cases res) auto
    from match_src_shorter [OF this] show ?thesis .
  qed
qed

lemma match_img_at_shorter: "match_img_at s = Some (m, rest) \<Longrightarrow> length rest < length s"
proof -
  assume "match_img_at s = Some (m, rest)"
  then obtain r b p btw v a where r: "strip_prefix ''<img'' s = Some r"
    and "search_src [] (dropWhile is_ws r) = Some (b, p, btw, v, a, rest)"
    by (auto simp: match_img_at_def split: option.splits if_splits)
  from search_src_shorter [OF this(2)] length_dropWhile_le [of is_ws r] strip_prefix_length [OF r]
  show ?thesis by simp
qed

text \<open>\<^verbatim>\<open>[...html.matchAll(imgRegex)]\<close>: the matches from left to right, each search
  starting where the previous match ended.\<close>

function img_matches :: "string \<Rightarrow> img_match list" where
  "img_matches [] = []"
| "img_matches (c # cs) =
     (case match_img_at (c # cs) of
        None \<Rightarrow> img_matches cs
      | Some (m, rest) \<Rightarrow> m # img_matches rest)"
  by pat_completeness auto
termination
proof (relation "measure length")
  fix c cs x m rest
  assume "match_img_at (c # cs) = Some x" "(m, rest) = x"
  then have "match_img_at (c # cs) = Some (m, rest)" by simp
  from match_img_at_shorter [OF this] show "(rest, c # cs) \<in> measure length" by simp
qed simp_all

declare img_matches.simps(2) [simp del]


subsection \<open>The host: library functions and the file system\<close>

text \<open>
  The functions of the platform and of third-party libraries are parameters of the model:
  the path library, the HTML minifier and the digest. Their calls are assumed to return.
\<close>

record host =
  cwd :: string
  path_sep :: string
  path_join :: "string list \<Rightarrow> string"
  path_resolve :: "string list \<Rightarrow> string"
  path_extname :: "string \<Rightarrow> string"
  path_basename :: "string \<Rightarrow> string \<Rightarrow> string"
  path_dirname :: "string \<Rightarrow> string"
  minify :: "string \<Rightarrow> string"
  sha1_hex :: "string \<Rightarrow> string"

text \<open>One call of the image library: read the source, resize, encode as WebP at the given
  quality, write to the output path. \<open>Fit_width w\<close> keeps the aspect ratio; \<open>Cover w h\<close>
  crops around the centre to exactly \<open>w\<close> by \<open>h\<close>.\<close>

datatype resize = Fit_width jsnum | Cover jsnum jsnum

record img_job =
  job_source :: string
  job_resize :: resize
  job_quality :: nat
  job_out :: string

text \<open>What a path holds: a written page, a derived image, a layout module (with the
  function it exports), an emitted edge script (with the routing table serialized into
  it; \<open>Worker\<close> for the scripts that look the path up, \<open>WorkerFx\<close> for the script of the
  versioned build), a directory, or anything else.\<close>

datatype fsnode =
    Html string
  | Webp img_job
  | Layout "obj \<Rightarrow> string"
  | Worker obj
  | WorkerFx obj
  | Directory
  | Other

datatype log_entry =
    WarnImageNotFound string
  | LogOptimized string "jsnum list"
  | WarnMissingSeparator string
  | ErrLayoutMissing string
  | LogPage string
  | LogFragment string
  | WarnCollision string
  | LogBuildComplete

text \<open>The world a build runs in: the paths that exist with what they hold, the image jobs
  run so far, and the console output.\<close>

record world =
  files :: "string \<rightharpoonup> fsnode"
  jobs :: "img_job list"
  log :: "log_entry list"

definition existsSync :: "'a world_scheme \<Rightarrow> string \<Rightarrow> bool" where
  "existsSync w p = (case files w p of None \<Rightarrow> False | Some _ \<Rightarrow> True)"

definition console :: "log_entry \<Rightarrow> 'a world_scheme \<Rightarrow> 'a world_scheme" where
  "console e w = w\<lparr>log := log w @ [e]\<rparr>"

definition write_file :: "string \<Rightarrow> fsnode \<Rightarrow> 'a world_scheme \<Rightarrow> 'a world_scheme" where
  "write_file p f w = w\<lparr>files := (files w)(p \<mapsto> f)\<rparr>"

text \<open>\<^verbatim>\<open>fs.promises.mkdir(p, { recursive: true })\<close>: nothing happens when the path exists.\<close>

definition mkdir :: "string \<Rightarrow> 'a world_scheme \<Rightarrow> 'a world_scheme" where
  "mkdir p w = (if existsSync w p then w else write_file p Directory w)"

subsection \<open>Sizes\<close>

definition DEFAULT_SIZES :: "int list" where
  "DEFAULT_SIZES = [480, 800, 1200]"

definition QUALITY :: nat where
  "QUALITY = 80"

record img_size =
  width :: jsnum
  height :: "jsnum option"

text \<open>One token of the marker value, \<^verbatim>\<open>"200"\<close> or \<^verbatim>\<open>"400x400"\<close>. A missing or empty
  second part gives \<^verbatim>\<open>height: null\<close>.\<close>

definition parse_size :: "string \<Rightarrow> img_size" where
  "parse_size s =
     (let parts = split_str ''x'' (trim s)
      in \<lparr>width = (case at_index parts 0 of None \<Rightarrow> NaN | Some p \<Rightarrow> parseInt p),
          height = (case at_index parts 1 of
                      None \<Rightarrow> None
                    | Some p \<Rightarrow> if p = [] then None else Some (parseInt p))\<rparr>)"

text \<open>\<^verbatim>\<open>if (optValue)\<close> is false for a marker without a value and for an empty value.\<close>

definition sizesToProcess :: "string option \<Rightarrow> img_size list" where
  "sizesToProcess ov =
     (case ov of
        None \<Rightarrow> map (\<lambda>w. \<lparr>width = Num w, height = None\<rparr>) DEFAULT_SIZES
      | Some v \<Rightarrow>
          if v = [] then map (\<lambda>w. \<lparr>width = Num w, height = None\<rparr>) DEFAULT_SIZES
          else map parse_size (split_str '','' v))"

text \<open>\<^verbatim>\<open>size.height ? `${size.width}x${size.height}` : size.width\<close>, and the resize the
  same test selects; \<^verbatim>\<open>if (size.height)\<close> is false for \<^verbatim>\<open>null\<close>, \<^verbatim>\<open>NaN\<close> and 0.\<close>

definition size_suffix :: "img_size \<Rightarrow> string" where
  "size_suffix sz =
     (case height sz of
        None \<Rightarrow> num_to_string (width sz)
      | Some h \<Rightarrow>
          if truthy_num h then num_to_string (width sz) @ ''x'' @ num_to_string h
          else num_to_string (width sz))"

definition size_resize :: "img_size \<Rightarrow> resize" where
  "size_resize sz =
     (case height sz of
        None \<Rightarrow> Fit_width (width sz)
      | Some h \<Rightarrow> if truthy_num h then Cover (width sz) h else Fit_width (width sz))"

subsection \<open>One element\<close>

definition normalizePath :: "host \<Rightarrow> string \<Rightarrow> string" where
  "normalizePath h p = join_str ''/'' (split_str (path_sep h) p)"

definition cleanPath :: "string \<Rightarrow> string" where
  "cleanPath src = (if startsWith src ''/'' then drop 1 src else src)"

definition localFilePath :: "host \<Rightarrow> img_match \<Rightarrow> string" where
  "localFilePath h m = path_join h [cwd h, ''src'', cleanPath (srcPath m)]"

definition fileName :: "host \<Rightarrow> img_match \<Rightarrow> string" where
  "fileName h m =
     replace_str ''.raw'' []
       (path_basename h (localFilePath h m) (path_extname h (localFilePath h m)))"

definition outFileName :: "host \<Rightarrow> img_match \<Rightarrow> img_size \<Rightarrow> string" where
  "outFileName h m sz = fileName h m @ ''-'' @ size_suffix sz @ ''.webp''"

definition outPath :: "host \<Rightarrow> img_match \<Rightarrow> img_size \<Rightarrow> string" where
  "outPath h m sz =
     path_join h [cwd h, ''public'', normalizePath h (path_dirname h (cleanPath (srcPath m))),
                  outFileName h m sz]"

definition descriptor :: "host \<Rightarrow> img_match \<Rightarrow> img_size \<Rightarrow> string" where
  "descriptor h m sz =
     normalizePath h (path_dirname h (srcPath m)) @ ''/'' @ outFileName h m sz
       @ '' '' @ num_to_string (width sz) @ ''w''"

text \<open>The body of \<^verbatim>\<open>sizePromises\<close> for one size: make the directory, derive the file
  unless a file of that name exists.\<close>

definition derive_size :: "host \<Rightarrow> img_match \<Rightarrow> img_size \<Rightarrow> 'a world_scheme \<Rightarrow> 'a world_scheme" where
  "derive_size h m sz w =
     (let w1 = mkdir (path_dirname h (outPath h m sz)) w
      in if existsSync w1 (outPath h m sz) then w1
         else (let job = \<lparr>job_source = localFilePath h m, job_resize = size_resize sz,
                           job_quality = QUALITY, job_out = outPath h m sz\<rparr>
               in write_file (outPath h m sz) (Webp job) (w1\<lparr>jobs := jobs w1 @ [job]\<rparr>)))"

text \<open>The rewritten element: the marker is left out, the source set is added
  (\<open>dq\<close> is the double quote).\<close>

definition dq :: string where
  "dq = [CHR 0x22]"

definition srcSetString :: "host \<Rightarrow> img_match \<Rightarrow> string" where
  "srcSetString h m = join_str '', '' (map (descriptor h m) (sizesToProcess (optValue m)))"

definition newTag :: "host \<Rightarrow> img_match \<Rightarrow> string" where
  "newTag h m =
     collapse_ws
       (''<img '' @ beforeSrc m @ '' src='' @ dq @ srcPath m @ dq @ '' srcset='' @ dq
          @ srcSetString h m @ dq @ '' '' @ between m @ '' '' @ after m @ ''>'')"

text \<open>
  The callback of \<^verbatim>\<open>matches.map\<close>. Every callback runs up to its first \<^verbatim>\<open>await\<close> before
  any of them resumes, so the test for the source file sees the world \<open>w0\<close> in which
  \<^verbatim>\<open>processImages\<close> was called; the variants are derived in the world \<open>w\<close> as it is by
  then. The model derives them element by element, in document order.
\<close>

definition process_match ::
  "host \<Rightarrow> 'a world_scheme \<Rightarrow> img_match \<Rightarrow> 'a world_scheme \<Rightarrow> (string \<times> string) \<times> 'a world_scheme" where
  "process_match h w0 m w =
     (if \<not> existsSync w0 (localFilePath h m) then ((originalTag m, originalTag m), w)
      else ((originalTag m, newTag h m),
            console (LogOptimized (fileName h m) (map width (sizesToProcess (optValue m))))
              (fold (derive_size h m) (sizesToProcess (optValue m)) w)))"

fun process_matches ::
  "host \<Rightarrow> 'a world_scheme \<Rightarrow> img_match list \<Rightarrow> 'a world_scheme
     \<Rightarrow> (string \<times> string) list \<times> 'a world_scheme" where
  "process_matches h w0 [] w = ([], w)"
| "process_matches h w0 (m # ms) w =
     (let (r, w1) = process_match h w0 m w;
          (rs, w2) = process_matches h w0 ms w1
      in (r # rs, w2))"

text \<open>The warnings of the callbacks, which all come before the first variant is derived.\<close>

definition missing_warnings :: "host \<Rightarrow> 'a world_scheme \<Rightarrow> img_match list \<Rightarrow> log_entry list" where
  "missing_warnings h w0 ms =
     map (\<lambda>m. WarnImageNotFound (localFilePath h m))
       (filter (\<lambda>m. \<not> existsSync w0 (localFilePath h m)) ms)"

text \<open>The final loop: \<^verbatim>\<open>newHtml = newHtml.replace(originalTag, newTag)\<close> for each result.\<close>

definition apply_results :: "(string \<times> string) list \<Rightarrow> string \<Rightarrow> string" where
  "apply_results results html = foldl (\<lambda>newHtml (ot, nt). replace_str ot nt newHtml) html results"

definition processImages :: "host \<Rightarrow> string \<Rightarrow> 'a world_scheme \<Rightarrow> string \<times> 'a world_scheme" where
  "processImages h html w =
     (let ms = img_matches html
      in if ms = [] then (html, w)
         else (let w1 = w\<lparr>log := log w @ missing_warnings h w ms\<rparr>;
                   (results, w2) = process_matches h w ms w1
               in (apply_results results html, w2)))"


section \<open>The build scripts\<close>

text \<open>
  The repository holds three generations of the build script: the first script of
  \<^verbatim>\<open>index.js\<close> (one source directory; a file without the delimiter is a fragment), the
  script \<^verbatim>\<open>part_000\<close> (pages and fragments in separate directories, one routing table, a
  collision warning), and the second script of \<^verbatim>\<open>index.js\<close> (fragments under a versioned
  prefix). They are modelled as \<open>build_single\<close>, \<open>build_split\<close> and \<open>build_fx\<close>.

  A directory listing is a list of file names with the text of each file, in listing
  order; \<open>None\<close> stands for a directory that does not exist. The world given to a build is
  the file system after the output directories are set up and the assets are copied.
\<close>

datatype error = MissingPagesDir | TypeError | ModuleNotFound string

record bstate = world +
  edgeStore :: obj

definition init_state :: "world \<Rightarrow> bstate" where
  "init_state w = \<lparr>files = files w, jobs = jobs w, log = log w, edgeStore = Map.empty\<rparr>"

type_synonym listing = "(string \<times> string) list"

definition delimiter :: string where
  "delimiter = ''------''"

definition LAYOUT_DIR :: "host \<Rightarrow> string" where
  "LAYOUT_DIR h = path_join h [cwd h, ''src'', ''layouts'']"

definition OUT_DIR :: "host \<Rightarrow> string" where
  "OUT_DIR h = path_join h [cwd h, ''public'']"

definition EDGE_DIR :: "host \<Rightarrow> string" where
  "EDGE_DIR h = path_join h [cwd h, ''edgescript'']"

text \<open>\<^verbatim>\<open>file.replace('.fx', '')\<close>\<close>

definition slug_of :: "string \<Rightarrow> string" where
  "slug_of file = replace_str ''.fx'' [] file"

definition edgeKey_of :: "string \<Rightarrow> string" where
  "edgeKey_of slug = (if slug = ''home'' \<or> slug = ''index'' then ''/'' else ''/'' @ slug)"

definition out_name :: "string \<Rightarrow> string" where
  "out_name slug = (if slug = ''home'' \<or> slug = ''index'' then ''index.html'' else slug @ ''.html'')"

text \<open>\<^verbatim>\<open>metadata.layout || 'base'\<close>\<close>

definition layout_name :: "obj \<Rightarrow> string" where
  "layout_name metadata =
     (case metadata ''layout'' of None \<Rightarrow> ''base'' | Some l \<Rightarrow> if l = [] then ''base'' else l)"

text \<open>\<^verbatim>\<open>parts = rawFile.split('------')\<close>, then \<^verbatim>\<open>parts[0]\<close> and \<^verbatim>\<open>parts[1].trim()\<close>; calling
  \<^verbatim>\<open>trim\<close> on a missing part is a type error.\<close>

definition split_page :: "string \<Rightarrow> error + (string \<times> string)" where
  "split_page rawFile =
     (let parts = split_str delimiter rawFile
      in case at_index parts 1 of
           None \<Rightarrow> Inl TypeError
         | Some b \<Rightarrow> Inr (case at_index parts 0 of None \<Rightarrow> [] | Some p0 \<Rightarrow> p0, trim b))"

text \<open>A \<^verbatim>\<open>for ... of\<close> loop whose body may throw: the first error ends the loop.\<close>

fun for_each :: "('a \<Rightarrow> 's \<Rightarrow> error + 's) \<Rightarrow> 'a list \<Rightarrow> 's \<Rightarrow> error + 's" where
  "for_each body [] st = Inr st"
| "for_each body (x # xs) st =
     (case body x st of Inl e \<Rightarrow> Inl e | Inr st' \<Rightarrow> for_each body xs st')"

text \<open>Steps 3 to 5 of a page, shared by the first two scripts: look for the layout file,
  report and skip the page when it is missing, otherwise render, derive the images of
  the full document, minify and write. Loading a file that is no layout module throws.\<close>

definition render_page :: "host \<Rightarrow> string \<Rightarrow> string \<Rightarrow> obj \<Rightarrow> bstate \<Rightarrow> error + bstate" where
  "render_page h slug edgeKey metadata st =
     (let layoutName = layout_name metadata;
          layoutPath = path_resolve h [LAYOUT_DIR h, layoutName @ ''.js'']
      in case files st layoutPath of
           None \<Rightarrow> Inr (console (ErrLayoutMissing layoutName) st)
         | Some node \<Rightarrow>
             (case node of
                Layout layoutFn \<Rightarrow>
                  (let (fullHtml, st1) = processImages h (layoutFn metadata) st;
                       outp = path_join h [OUT_DIR h, out_name slug]
                   in Inr (console (LogPage edgeKey) (write_file outp (Html (minify h fullHtml)) st1)))
              | _ \<Rightarrow> Inl (ModuleNotFound layoutPath)))"

subsection \<open>First script of \<^verbatim>\<open>index.js\<close>\<close>

definition file_single :: "host \<Rightarrow> string \<times> string \<Rightarrow> bstate \<Rightarrow> error + bstate" where
  "file_single h fr st =
     (case fr of (file, rawFile) \<Rightarrow>
        if \<not> endsWith file ''.fx'' then Inr st
        else (let slug = slug_of file; edgeKey = edgeKey_of slug
              in if str_includes rawFile delimiter
                 then (case split_page rawFile of
                         Inl e \<Rightarrow> Inl e
                       | Inr (headerRaw, body) \<Rightarrow>
                           (let (contentHtml, st1) = processImages h body st;
                                st2 = st1\<lparr>edgeStore :=
                                        obj_set (edgeStore st1) edgeKey (minify h contentHtml)\<rparr>;
                                metadata = obj_set (parseMetadata headerRaw) ''content'' contentHtml
                            in render_page h slug edgeKey metadata st2))
                 else (let (contentHtml, st1) = processImages h (trim rawFile) st;
                           st2 = st1\<lparr>edgeStore :=
                                   obj_set (edgeStore st1) edgeKey (minify h contentHtml)\<rparr>
                       in Inr (console (LogFragment edgeKey) st2))))"

definition worker_path :: "host \<Rightarrow> string" where
  "worker_path h = path_join h [EDGE_DIR h, ''worker.js'']"

definition build_single :: "host \<Rightarrow> listing option \<Rightarrow> world \<Rightarrow> error + bstate" where
  "build_single h pages w =
     (case pages of
        None \<Rightarrow> Inl MissingPagesDir
      | Some fileList \<Rightarrow>
          (case for_each (file_single h) fileList (init_state w) of
             Inl e \<Rightarrow> Inl e
           | Inr st \<Rightarrow>
               Inr (console LogBuildComplete (write_file (worker_path h) (Worker (edgeStore st)) st))))"

subsection \<open>The script \<^verbatim>\<open>part_000\<close>\<close>

definition page_split :: "host \<Rightarrow> string \<times> string \<Rightarrow> bstate \<Rightarrow> error + bstate" where
  "page_split h fr st =
     (case fr of (file, rawFile) \<Rightarrow>
        if \<not> endsWith file ''.fx'' then Inr st
        else (let slug = slug_of file; edgeKey = edgeKey_of slug
              in case (if str_includes rawFile delimiter
                       then (case split_page rawFile of
                               Inl e \<Rightarrow> Inl e
                             | Inr (headerRaw, body) \<Rightarrow> Inr (headerRaw, body, st))
                       else Inr ([], trim rawFile, console (WarnMissingSeparator file) st)) of
                   Inl e \<Rightarrow> Inl e
                 | Inr (headerRaw, body, st0) \<Rightarrow>
                     (let (contentHtml, st1) = processImages h body st0;
                          st2 = st1\<lparr>edgeStore :=
                                  obj_set (edgeStore st1) edgeKey (minify h contentHtml)\<rparr>;
                          metadata = obj_set (parseMetadata headerRaw) ''body'' contentHtml
                      in render_page h slug edgeKey metadata st2)))"

text \<open>\<^verbatim>\<open>if (edgeStore[edgeKey])\<close>: true when the key holds a non-empty string.\<close>

definition truthy_entry :: "obj \<Rightarrow> string \<Rightarrow> bool" where
  "truthy_entry store k = (case store k of None \<Rightarrow> False | Some v \<Rightarrow> v \<noteq> [])"

definition fragment_split :: "host \<Rightarrow> string \<times> string \<Rightarrow> bstate \<Rightarrow> error + bstate" where
  "fragment_split h fr st =
     (case fr of (file, text) \<Rightarrow>
        if \<not> endsWith file ''.fx'' then Inr st
        else (let slug = slug_of file;
                  edgeKey = ''/'' @ slug;
                  st0 = (if truthy_entry (edgeStore st) edgeKey
                         then console (WarnCollision slug) st else st);
                  (contentHtml, st1) = processImages h (trim text) st0;
                  st2 = st1\<lparr>edgeStore := obj_set (edgeStore st1) edgeKey (minify h contentHtml)\<rparr>
              in Inr (console (LogFragment edgeKey) st2)))"

definition build_split :: "host \<Rightarrow> listing option \<Rightarrow> listing option \<Rightarrow> world \<Rightarrow> error + bstate" where
  "build_split h pages fragments w =
     (case pages of
        None \<Rightarrow> Inl MissingPagesDir
      | Some pageFiles \<Rightarrow>
          (case for_each (page_split h) pageFiles (init_state w) of
             Inl e \<Rightarrow> Inl e
           | Inr st \<Rightarrow>
               (case (case fragments of
                        None \<Rightarrow> Inr st
                      | Some fragmentFiles \<Rightarrow> for_each (fragment_split h) fragmentFiles st) of
                  Inl e \<Rightarrow> Inl e
                | Inr st' \<Rightarrow>
                    Inr (console LogBuildComplete
                          (write_file (worker_path h) (Worker (edgeStore st')) st')))))"


subsection \<open>Second script of \<^verbatim>\<open>index.js\<close>: versioned fragments\<close>

record fxstate = world +
  fragmentStore :: obj

definition init_fx :: "world \<Rightarrow> fxstate" where
  "init_fx w = \<lparr>files = files w, jobs = jobs w, log = log w, fragmentStore = Map.empty\<rparr>"

text \<open>\<^verbatim>\<open>crypto.createHash("sha1").update(s).digest("hex").slice(0, 8)\<close>\<close>

definition hash :: "host \<Rightarrow> string \<Rightarrow> string" where
  "hash h s = take 8 (sha1_hex h s)"

definition LAYOUTS :: "host \<Rightarrow> string" where
  "LAYOUTS h = path_join h [path_join h [cwd h, ''src''], ''layouts'']"

definition OUT :: "host \<Rightarrow> string" where
  "OUT h = path_join h [cwd h, ''public'']"

definition EDGE :: "host \<Rightarrow> string" where
  "EDGE h = path_join h [cwd h, ''edgescript'']"

text \<open>\<^verbatim>\<open>fs.existsSync(FRAGMENTS) ? fs.readdirSync(FRAGMENTS).filter(f => f.endsWith(".fx")) : []\<close>\<close>

definition fragmentFiles :: "listing option \<Rightarrow> listing" where
  "fragmentFiles fragments =
     (case fragments of None \<Rightarrow> [] | Some l \<Rightarrow> filter (\<lambda>(f, text). endsWith f ''.fx'') l)"

text \<open>Read, trim, derive images, minify: the three lines both fragment loops share.\<close>

definition fragment_html :: "host \<Rightarrow> string \<Rightarrow> 'a world_scheme \<Rightarrow> string \<times> 'a world_scheme" where
  "fragment_html h text w =
     (let (html, w1) = processImages h (trim text) w in (minify h html, w1))"

text \<open>The first loop: \<^verbatim>\<open>fragmentPayload += html\<close>.\<close>

fun fragment_payload :: "host \<Rightarrow> listing \<Rightarrow> string \<Rightarrow> fxstate \<Rightarrow> string \<times> fxstate" where
  "fragment_payload h [] payload st = (payload, st)"
| "fragment_payload h ((f, text) # rest) payload st =
     (let (html, st1) = fragment_html h text st
      in fragment_payload h rest (payload @ html) st1)"

text \<open>\<^verbatim>\<open>hash(fragmentPayload || "fx")\<close>\<close>

definition version_of :: "host \<Rightarrow> string \<Rightarrow> string" where
  "version_of h payload = hash h (if payload = [] then ''fx'' else payload)"

definition routeKey :: "string \<Rightarrow> string \<Rightarrow> string" where
  "routeKey version name = ''/__fx/v'' @ version @ ''/'' @ name"

text \<open>The body of the second loop.\<close>

definition store_fragment :: "host \<Rightarrow> string \<Rightarrow> string \<times> string \<Rightarrow> fxstate \<Rightarrow> fxstate" where
  "store_fragment h version fr st =
     (case fr of (f, text) \<Rightarrow>
        (let name = slug_of f;
             (html, st1) = fragment_html h text st
         in console (LogFragment (''/'' @ name))
              (st1\<lparr>fragmentStore := obj_set (fragmentStore st1) (routeKey version name) html\<rparr>)))"

text \<open>The fragment phase: both loops, with the version computed between them.\<close>

definition fragment_phase :: "host \<Rightarrow> listing option \<Rightarrow> world \<Rightarrow> string \<times> fxstate" where
  "fragment_phase h fragments w =
     (let (fragmentPayload, st1) = fragment_payload h (fragmentFiles fragments) [] (init_fx w);
          FX_VERSION = version_of h fragmentPayload
      in (FX_VERSION, fold (store_fragment h FX_VERSION) (fragmentFiles fragments) st1))"

text \<open>The body of the page loop. The layout module is imported without a test for its
  file: a missing module makes the import throw.\<close>

definition page_fx :: "host \<Rightarrow> string \<Rightarrow> string \<times> string \<Rightarrow> fxstate \<Rightarrow> error + fxstate" where
  "page_fx h version fr st =
     (case fr of (f, raw) \<Rightarrow>
        (case (if str_includes raw delimiter then split_page raw else Inr ([], trim raw)) of
           Inl e \<Rightarrow> Inl e
         | Inr (head, body) \<Rightarrow>
             (let meta = parseMetadata head;
                  (html, st1) = processImages h body st;
                  layout = layout_name meta;
                  layoutPath = path_join h [LAYOUTS h, layout @ ''.js'']
              in case files st1 layoutPath of
                   None \<Rightarrow> Inl (ModuleNotFound layoutPath)
                 | Some node \<Rightarrow>
                     (case node of
                        Layout layoutFn \<Rightarrow>
                          (let page = layoutFn (meta(''body'' \<mapsto> html, ''fxVersion'' \<mapsto> version));
                               (page1, st2) = processImages h page st1;
                               name = slug_of f
                           in Inr (console (LogPage (''/'' @ name))
                                    (write_file (path_join h [OUT h, out_name name])
                                       (Html (minify h page1)) st2)))
                      | _ \<Rightarrow> Inl (ModuleNotFound layoutPath)))))"

definition build_fx :: "host \<Rightarrow> listing option \<Rightarrow> listing option \<Rightarrow> world \<Rightarrow> error + fxstate" where
  "build_fx h fragments pages w =
     (let (FX_VERSION, st) = fragment_phase h fragments w
      in case pages of
           None \<Rightarrow> Inl MissingPagesDir
         | Some l \<Rightarrow>
             (case for_each (page_fx h FX_VERSION) (filter (\<lambda>(f, raw). endsWith f ''.fx'') l) st of
                Inl e \<Rightarrow> Inl e
              | Inr st' \<Rightarrow>
                  Inr (console LogBuildComplete
                        (write_file (path_join h [EDGE h, ''worker.js''])
                           (WorkerFx (fragmentStore st')) st'))))"

section \<open>The emitted edge scripts\<close>

text \<open>A request is answered with a response of the script's own (body and headers) or
  handed to the origin with \<^verbatim>\<open>fetch(request)\<close>.\<close>

datatype response = Response string "(string \<times> string) list" | Fetch_origin

text \<open>
  \<^verbatim>\<open>new URL(request.url).pathname\<close> for the serialized URL of an HTTP request: the text from
  the first slash after the authority up to the query or the fragment.
\<close>

definition url_pathname :: "string \<Rightarrow> string" where
  "url_pathname u =
     (case index_of ''://'' u of
        None \<Rightarrow> []
      | Some i \<Rightarrow>
          takeWhile (\<lambda>c. c \<noteq> CHR ''?'' \<and> c \<noteq> CHR ''#'')
            (dropWhile (\<lambda>c. c \<noteq> CHR ''/'') (drop (i + 3) u)))"

text \<open>The script of the first two builds: \<^verbatim>\<open>if (fragments[url.pathname])\<close>.\<close>

definition handleRequest :: "obj \<Rightarrow> string \<Rightarrow> response" where
  "handleRequest fragments url =
     (case fragments (url_pathname url) of
        None \<Rightarrow> Fetch_origin
      | Some html \<Rightarrow>
          if html = [] then Fetch_origin
          else Response html [(''Content-Type'', ''text/html; charset=utf-8''),
                              (''Cache-Control'', ''public, max-age=60'')])"




section \<open>Notions for the statements\<close>





text \<open>The minified payloads of the fragments, one per file, in listing order.\<close>

fun payload_list :: "host \<Rightarrow> listing \<Rightarrow> fxstate \<Rightarrow> string list" where
  "payload_list h [] st = []"
| "payload_list h ((f, text) # rest) st =
     (let (html, st1) = fragment_html h text st in html # payload_list h rest st1)"











section \<open>A sample site\<close>

text \<open>
  A concrete host for the examples below: POSIX paths without normalisation, a minifier
  that leaves already minimal markup as it is, and a digest that agrees with SHA-1 on
  the empty string and on \<^verbatim>\<open>fx\<close>.
\<close>

definition last_segment :: "string \<Rightarrow> string" where
  "last_segment p = rev (takeWhile (\<lambda>c. c \<noteq> CHR ''/'') (rev p))"

definition posix_dirname :: "string \<Rightarrow> string" where
  "posix_dirname p =
     (let d = rev (drop 1 (dropWhile (\<lambda>c. c \<noteq> CHR ''/'') (rev p)))
      in if d = [] then (if CHR ''/'' \<in> set p then ''/'' else ''.'') else d)"

definition posix_extname :: "string \<Rightarrow> string" where
  "posix_extname p =
     (let b = last_segment p
      in if CHR ''.'' \<in> set (drop 1 b) then CHR ''.'' # rev (takeWhile (\<lambda>c. c \<noteq> CHR ''.'') (rev b))
         else [])"

definition posix_basename :: "string \<Rightarrow> string \<Rightarrow> string" where
  "posix_basename p ext =
     (let b = last_segment p
      in if ext \<noteq> [] \<and> suffix ext b \<and> b \<noteq> ext then take (length b - length ext) b else b)"

definition sample_sha1 :: "string \<Rightarrow> string" where
  "sample_sha1 s =
     (if s = [] then ''da39a3ee5e6b4b0d3255bfef95601890afd80709''
      else if s = ''fx'' then ''06967d8e4a36243a7dc6404de1b1141f744adf2e''
      else ''0000000000000000000000000000000000000000'')"

definition site :: host where
  "site = \<lparr>cwd = ''/site'', path_sep = ''/'', path_join = join_str ''/'',
           path_resolve = join_str ''/'', path_extname = posix_extname,
           path_basename = posix_basename, path_dirname = posix_dirname,
           minify = (\<lambda>s. s), sha1_hex = sample_sha1\<rparr>"

text \<open>A layout that wraps the page's markup, which the first script passes as
  \<^verbatim>\<open>data.content\<close> and the later scripts as \<^verbatim>\<open>data.body\<close>.\<close>

definition base_layout :: "obj \<Rightarrow> string" where
  "base_layout data =
     ''<main>''
       @ (case data ''content'' of
            Some c \<Rightarrow> c
          | None \<Rightarrow> (case data ''body'' of None \<Rightarrow> ''undefined'' | Some b \<Rightarrow> b))
       @ ''</main>''"

text \<open>The file system of the sample site after setup: two images and the layout
  \<^verbatim>\<open>base\<close>.\<close>

definition site_world :: world where
  "site_world = \<lparr>files = [''/site/src/assets/data-opt.png'' \<mapsto> Other,
                           ''/site/src/assets/hero.jpg'' \<mapsto> Other,
                           ''/site/src/layouts/base.js'' \<mapsto> Layout base_layout],
                 jobs = [], log = []\<rparr>"

text \<open>\<^verbatim>\<open><img src="/assets/data-opt.png" data-opt>\<close>, an image whose file name contains the
  marker's text and whose source exists.\<close>

definition marker_named_tag :: string where
  "marker_named_tag = ''<img src='' @ dq @ ''/assets/data-opt.png'' @ dq @ '' data-opt>''"

text \<open>\<^verbatim>\<open><img src="/x.png" data-opt alt="$$5">\<close>, an image whose source does not exist, and
  the same element with one dollar sign.\<close>

definition price_tag :: string where
  "price_tag = ''<img src='' @ dq @ ''/x.png'' @ dq @ '' data-opt alt='' @ dq @ ''$$5'' @ dq @ ''>''"

definition price_tag_out :: string where
  "price_tag_out = ''<img src='' @ dq @ ''/x.png'' @ dq @ '' data-opt alt='' @ dq @ ''$5'' @ dq @ ''>''"



text \<open>Directory listings.\<close>

definition nav_fragments :: "listing option" where
  "nav_fragments = Some [(''nav.fx'', ''<nav>x</nav>''), (''readme.txt'', ''notes'')]"

definition empty_fragment :: "listing option" where
  "empty_fragment = Some [(''a.fx'', [])]"

definition modal_pages :: "listing option" where
  "modal_pages = Some [(''modal.fx'', ''<div>hi</div>'')]"

definition sibling_pages :: "listing option" where
  "sibling_pages = Some [(''a.fx'', ''<layout>nope</layout>------<p>a</p>''),
                         (''b.fx'', ''<title>t</title>------<p>b</p>'')]"

definition empty_page :: listing where
  "empty_page = [(''a.fx'', ''------'')]"

definition a_fragment :: listing where
  "a_fragment = [(''a.fx'', ''<p>x</p>'')]"







section \<open>Properties\<close>

subsection \<open>Image derivation\<close>

text \<open>
  Claim C9, at the input \<^verbatim>\<open><img src="/x.png" data-opt alt="$$5">\<close> with no file
  \<^verbatim>\<open>/site/src/x.png\<close>: the pass warns and derives nothing, but the element does not come
  out as it went in. The callback returns the element's own text as its replacement, and
  the final \<^verbatim>\<open>replace\<close> reads \<^verbatim>\<open>$$\<close> in a replacement as one dollar sign.
\<close>

theorem missing_source_element_altered:
  "fst (processImages site price_tag site_world) = price_tag_out
   \<and> price_tag_out \<noteq> price_tag
   \<and> jobs (snd (processImages site price_tag site_world)) = []
   \<and> log (snd (processImages site price_tag site_world)) = [WarnImageNotFound ''/site/src/x.png'']"
  by code_simp

text \<open>
  Claim C2, at the input \<^verbatim>\<open><img src="/assets/data-opt.png" data-opt>\<close> with the source
  present: the output of the first pass is matched again by the element regex (the
  marker's text occurs in the derived file names of the source set), and a second pass
  changes it.
\<close>

theorem second_pass_rematches:
  "(let (out1, w1) = processImages site marker_named_tag site_world
    in img_matches out1 \<noteq> [] \<and> fst (processImages site out1 w1) \<noteq> out1)"
  by code_simp


subsection \<open>The world outside the file system is left alone\<close>

lemma more_fx: "world.more (w'::fxstate) = world.more w \<Longrightarrow> fragmentStore w' = fragmentStore w"
  by (cases w, cases w') simp


lemma derive_size_more: "world.more (derive_size h m sz w) = world.more w"
  by (simp add: derive_size_def mkdir_def write_file_def Let_def)

lemma fold_derive_more: "world.more (fold (derive_size h m) szs w) = world.more w"
  by (induction szs arbitrary: w) (simp_all add: derive_size_more)

lemma process_match_more: "world.more (snd (process_match h w0 m w)) = world.more w"
  by (simp add: process_match_def console_def fold_derive_more)

lemma process_matches_more: "world.more (snd (process_matches h w0 ms w)) = world.more w"
  by (induction ms arbitrary: w) (simp_all add: split_def Let_def process_match_more)

lemma processImages_more: "world.more (snd (processImages h html w)) = world.more w"
  by (simp add: processImages_def Let_def split_def process_matches_more)

subsection \<open>Versioned fragments\<close>

lemma fragment_html_store:
  "fragmentStore (snd (fragment_html h t (st::fxstate))) = fragmentStore st"
  by (simp add: fragment_html_def split_def Let_def more_fx [OF processImages_more])

lemma fragment_payload_concat:
  "fst (fragment_payload h fs acc st) = acc @ concat (payload_list h fs st)"
  by (induction h fs acc st rule: fragment_payload.induct) (simp_all add: split_def Let_def)

lemma fragment_payload_store:
  "fragmentStore (snd (fragment_payload h fs acc st)) = fragmentStore st"
  by (induction h fs acc st rule: fragment_payload.induct)
     (simp_all add: split_def Let_def fragment_html_store)

lemma routeKey_not_proto: "routeKey ver name \<noteq> ''__proto__''"
  by (simp add: routeKey_def)

lemma store_fragment_store:
  "fragmentStore (store_fragment h ver (f, t) st) =
     (fragmentStore st)(routeKey ver (slug_of f) \<mapsto> fst (fragment_html h t st))"
  by (simp add: store_fragment_def split_def Let_def console_def obj_set_def routeKey_not_proto
      fragment_html_store)

lemma fold_store_dom:
  "dom (fragmentStore (fold (store_fragment h ver) fs st)) =
     dom (fragmentStore st) \<union> (\<lambda>(f, t). routeKey ver (slug_of f)) ` set fs"
proof (induction fs arbitrary: st)
  case Nil
  then show ?case by simp
next
  case (Cons x fs)
  obtain f t where x: "x = (f, t)" by (cases x)
  show ?case by (auto simp: Cons.IH x store_fragment_store)
qed

text \<open>
  Claim C1, as the script has it. After the fragment phase every key of the fragment
  store is \<^verbatim>\<open>/__fx/v\<close>, the version, a slash and the name of a fragment file, and every
  fragment file has its key. The version is one value for the whole build: the digest
  of the concatenation, in listing order, of the minified payloads of the first loop --
  or the digest of the text \<^verbatim>\<open>fx\<close> when that concatenation is empty. It is computed from
  the first loop alone, before the second loop assigns any key.
\<close>

theorem fragment_keys_share_version:
  "(let (FX_VERSION, st) = fragment_phase h fragments w;
        payload = concat (payload_list h (fragmentFiles fragments) (init_fx w))
    in FX_VERSION = hash h (if payload = [] then ''fx'' else payload)
       \<and> (\<forall>k \<in> dom (fragmentStore st).
             \<exists>(f, t) \<in> set (fragmentFiles fragments).
               k = ''/__fx/v'' @ FX_VERSION @ ''/'' @ slug_of f)
       \<and> (\<forall>(f, t) \<in> set (fragmentFiles fragments).
             ''/__fx/v'' @ FX_VERSION @ ''/'' @ slug_of f \<in> dom (fragmentStore st)))"
proof -
  define fs where "fs = fragmentFiles fragments"
  define st1 where "st1 = snd (fragment_payload h fs [] (init_fx w))"
  define payload where "payload = concat (payload_list h fs (init_fx w))"
  define ver where "ver = version_of h payload"
  have pl: "fst (fragment_payload h fs [] (init_fx w)) = payload"
    by (simp add: fragment_payload_concat payload_def)
  have phase: "fragment_phase h fragments w = (ver, fold (store_fragment h ver) fs st1)"
    by (simp add: fragment_phase_def split_def Let_def pl ver_def st1_def fs_def [symmetric])
  have "fragmentStore st1 = Map.empty"
    by (simp add: st1_def fragment_payload_store init_fx_def)
  then have dom: "dom (fragmentStore (fold (store_fragment h ver) fs st1)) =
      (\<lambda>(f, t). routeKey ver (slug_of f)) ` set fs"
    by (simp add: fold_store_dom)
  show ?thesis
    unfolding phase Let_def split_conv dom fs_def [symmetric] payload_def [symmetric]
    by (auto simp: ver_def version_of_def routeKey_def)
qed

text \<open>The sample site with the fragments \<^verbatim>\<open>nav.fx\<close> and \<^verbatim>\<open>readme.txt\<close>: the one key of
  the store is the key of \<^verbatim>\<open>nav.fx\<close> under the build's version.\<close>

theorem fragment_keys_share_version_witness:
  "fragmentStore (snd (fragment_phase site nav_fragments site_world)) ''/__fx/v00000000/nav''
     = Some ''<nav>x</nav>''
   \<and> (\<exists>(f, t) \<in> set (fragmentFiles nav_fragments).
         ''/__fx/v00000000/nav''
           = ''/__fx/v'' @ fst (fragment_phase site nav_fragments site_world) @ ''/'' @ slug_of f)"
proof -
  let ?P = "fragment_phase site nav_fragments site_world"
  have ev: "fragmentStore (snd ?P) ''/__fx/v00000000/nav'' = Some ''<nav>x</nav>''"
    by code_simp
  then have "''/__fx/v00000000/nav'' \<in> dom (fragmentStore (snd ?P))"
    by blast
  moreover from fragment_keys_share_version [of site nav_fragments site_world, unfolded Let_def split_def]
  have "\<forall>k \<in> dom (fragmentStore (snd ?P)).
          \<exists>(f, t) \<in> set (fragmentFiles nav_fragments).
            k = ''/__fx/v'' @ fst ?P @ ''/'' @ slug_of f"
    unfolding split_def by (elim conjE)
  ultimately show ?thesis using ev by blast
qed

text \<open>
  Claim C1 as stated fails where every fragment is empty. With the one fragment file
  \<^verbatim>\<open>a.fx\<close>, empty, the concatenation of the payloads is empty and its digest begins
  \<^verbatim>\<open>da39a3ee\<close>; the key stored is under the digest of \<^verbatim>\<open>fx\<close>, \<^verbatim>\<open>06967d8e\<close>.
\<close>

theorem empty_payload_version:
  "fst (fragment_phase site empty_fragment site_world) = ''06967d8e''
   \<and> concat (payload_list site (fragmentFiles empty_fragment) (init_fx site_world)) = []
   \<and> hash site [] = ''da39a3ee''
   \<and> fragmentStore (snd (fragment_phase site empty_fragment site_world)) ''/__fx/v06967d8e/a''
       = Some []"
  by code_simp

subsection \<open>Pages without a delimiter, missing layouts, collisions\<close>

text \<open>
  Claim C4, at the page \<^verbatim>\<open>modal.fx\<close> with the text \<^verbatim>\<open><div>hi</div>\<close> (no delimiter) in
  the script \<^verbatim>\<open>part_000\<close>: the script warns that the file is used as content with no
  layout, and then renders it through the layout \<^verbatim>\<open>base\<close> and writes \<^verbatim>\<open>modal.html\<close>.
\<close>

theorem page_without_delimiter_gets_layout:
  "(case build_split site modal_pages None site_world of
      Inl e \<Rightarrow> False
    | Inr st \<Rightarrow>
        log st = [WarnMissingSeparator ''modal.fx'', LogPage ''/modal'', LogBuildComplete]
        \<and> (case files st ''/site/public/modal.html'' of
             Some (Html page) \<Rightarrow> page = ''<main><div>hi</div></main>''
           | _ \<Rightarrow> False))"
  by code_simp

text \<open>
  Claim C7, at the pages \<^verbatim>\<open>a.fx\<close> (which names the layout \<^verbatim>\<open>nope\<close>, for which there is
  no file) and \<^verbatim>\<open>b.fx\<close> in the versioned script: the import of the layout throws, and
  the build ends there. Nothing is written for \<^verbatim>\<open>b.fx\<close>.
\<close>

theorem missing_layout_aborts_fx_build:
  "(case build_fx site None sibling_pages site_world of
      Inl e \<Rightarrow> e = ModuleNotFound ''/site/src/layouts/nope.js''
    | Inr st \<Rightarrow> False)"
  by code_simp

text \<open>The same pages in the script \<^verbatim>\<open>part_000\<close>, which tests for the layout file first:
  the page \<^verbatim>\<open>a.fx\<close> is reported and skipped, the page \<^verbatim>\<open>b.fx\<close> is written.\<close>

lemma missing_layout_skipped_split_build:
  "(case build_split site sibling_pages None site_world of
      Inl e \<Rightarrow> False
    | Inr st \<Rightarrow>
        log st = [ErrLayoutMissing ''nope'', LogPage ''/b'', LogBuildComplete]
        \<and> (case files st ''/site/public/b.html'' of
             Some (Html page) \<Rightarrow> page = ''<main><p>b</p></main>''
           | _ \<Rightarrow> False)
        \<and> (case files st ''/site/public/a.html'' of None \<Rightarrow> True | _ \<Rightarrow> False))"
  by code_simp

text \<open>
  Claim C8, at the page \<^verbatim>\<open>a.fx\<close> with an empty body and the fragment \<^verbatim>\<open>a.fx\<close> in the
  script \<^verbatim>\<open>part_000\<close>: after the pages the routing table holds the key \<^verbatim>\<open>/a\<close> (with
  the empty text), the fragment's entry replaces it, and no collision is reported.
\<close>

theorem collision_with_empty_entry_not_reported:
  "(case for_each (page_split site) empty_page (init_state site_world) of
      Inl e \<Rightarrow> False
    | Inr st \<Rightarrow> edgeStore st ''/a'' = Some [])
   \<and> (case build_split site (Some empty_page) (Some a_fragment) site_world of
        Inl e \<Rightarrow> False
      | Inr st \<Rightarrow>
          log st = [LogPage ''/a'', LogFragment ''/a'', LogBuildComplete]
          \<and> edgeStore st ''/a'' = Some ''<p>x</p>'')"
  by code_simp


subsection \<open>Positions of a substring\<close>

lemma index_of_Some_iff:
  "index_of sub s = Some i \<longleftrightarrow>
     i \<le> length s \<and> prefix sub (drop i s) \<and> (\<forall>j < i. \<not> prefix sub (drop j s))"
proof (induction s arbitrary: i)
  case Nil
  then show ?case by (auto)
next
  case (Cons c cs)
  show ?case
  proof (cases "prefix sub (c # cs)")
    case True
    then show ?thesis by (auto intro: gr0I)
  next
    case False
    have "(\<exists>j. index_of sub cs = Some j \<and> i = Suc j) \<longleftrightarrow>
        i \<le> length (c # cs) \<and> prefix sub (drop i (c # cs)) \<and> (\<forall>j < i. \<not> prefix sub (drop j (c # cs)))"
    proof (cases i)
      case 0
      with False show ?thesis by simp
    next
      case (Suc k)
      have "(\<forall>j < Suc k. \<not> prefix sub (drop j (c # cs))) \<longleftrightarrow> (\<forall>j < k. \<not> prefix sub (drop j cs))"
        using False by (auto simp: less_Suc_eq_0_disj)
      with Suc Cons.IH [of k] show ?thesis by simp
    qed
    with False show ?thesis by auto
  qed
qed









subsection \<open>Replacing an element by itself\<close>

text \<open>An element without a dollar sign that is replaced by its own text stays as it is;
  this is what the callback's \<^verbatim>\<open>newTag: originalTag\<close> relies on.\<close>

lemma get_substitution_no_dollar:
  "CHR ''$'' \<notin> set repl \<Longrightarrow> get_substitution matched pre post repl = repl"
  by (induction matched pre post repl rule: get_substitution.induct) auto

lemma replace_str_self:
  assumes "CHR ''$'' \<notin> set ot"
  shows "replace_str ot ot html = html"
proof (cases "index_of ot html")
  case None
  then show ?thesis by (simp add: replace_str_def)
next
  case (Some i)
  then have "prefix ot (drop i html)" by (simp add: index_of_Some_iff)
  then obtain r where r: "drop i html = ot @ r" by (auto simp: prefix_def)
  then have "drop (i + length ot) html = r"
    by (metis add.commute append_eq_conv_conj drop_drop)
  with r have "take i html @ ot @ drop (i + length ot) html = html"
    by (metis append_take_drop_id)
  with Some show ?thesis
    by (simp add: replace_str_def Let_def get_substitution_no_dollar [OF assms])
qed

subsection \<open>The edge script of the versioned build\<close>






text \<open>The script of \<^verbatim>\<open>part_000\<close>, for comparison: it looks the request path up, treats an
  empty entry as a miss, and sends a cache lifetime of one minute.\<close>

lemma handleRequest_examples:
  "handleRequest [''/a'' \<mapsto> ''<p>a</p>''] ''https://cdn.io/a?x=1''
     = Response ''<p>a</p>'' [(''Content-Type'', ''text/html; charset=utf-8''),
                              (''Cache-Control'', ''public, max-age=60'')]
   \<and> handleRequest [''/a'' \<mapsto> []] ''https://cdn.io/a'' = Fetch_origin
   \<and> handleRequest [''/a'' \<mapsto> ''<p>a</p>''] ''https://cdn.io/a/'' = Fetch_origin"
  by code_simp

subsection \<open>Explicit sizes\<close>






















subsection \<open>What one source file does\<close>

lemma existsSync_more [simp]:
  "existsSync (w\<lparr>log := l\<rparr>) = existsSync w"
  "existsSync (st\<lparr>edgeStore := e\<rparr>) = existsSync st"
  by (simp_all add: existsSync_def fun_eq_iff)





















subsection \<open>Home and index\<close>





subsection \<open>Parsing a page\<close>





















end
